theory Spec2Isabelle
  imports Complex_Main
begin

section \<open>The distribution plot: composicao\_histograma\_boxplot\<close>

text \<open>
  The routine talks to the file system (\<open>os.path.exists\<close>, \<open>os.makedirs\<close>), to the
  charting libraries (lines 67 to 103 of the source, and \<open>plt.savefig\<close>, \<open>plt.show\<close>)
  and to the console (\<open>print\<close>). The answers of the outside world are the fields of
  \<open>plot_env\<close>; what the routine does to the outside world is the list of effects it
  returns, in the order of the source, together with its outcome: \<open>Inr ()\<close> when it
  returns, \<open>Inl e\<close> when the exception \<open>e\<close> leaves it.
\<close>

datatype py_exception = OSError | PermissionError | KeyError | ValueError

record plot_env =
  dir_exists :: bool
  makedirs_result :: "py_exception option"
  draw_result :: "py_exception option"
  savefig_result :: "py_exception option"

datatype message =
    PastaCriada
  | ErroCriarPasta py_exception
  | GraficoSalvo string
  | ErroSalvar string py_exception

datatype effect =
    Makedirs
  | Draw string
  | Savefig string
  | Show
  | Print message

text \<open>
  Lines 57 to 64: the directory is created only when saving is asked for and the
  directory is missing. The second component is False when line 64 returns.
\<close>

definition garantir_pasta :: "plot_env \<Rightarrow> bool \<Rightarrow> effect list \<times> bool" where
  "garantir_pasta env salvar =
     (if salvar then
        (if \<not> dir_exists env then
           (case makedirs_result env of
              None \<Rightarrow> ([Makedirs, Print PastaCriada], True)
            | Some e \<Rightarrow> ([Print (ErroCriarPasta e)], False))
         else ([], True))
      else ([], True))"

text \<open>Lines 106 to 112: the best-effort save of the finished figure.\<close>

definition salvar_grafico :: "plot_env \<Rightarrow> string \<Rightarrow> bool \<Rightarrow> effect list" where
  "salvar_grafico env nome_arquivo salvar =
     (if salvar then
        (case savefig_result env of
           None \<Rightarrow> [Savefig nome_arquivo, Print (GraficoSalvo nome_arquivo)]
         | Some e \<Rightarrow> [Print (ErroSalvar nome_arquivo e)])
      else [])"

definition composicao_histograma_boxplot ::
  "plot_env \<Rightarrow> string \<Rightarrow> string \<Rightarrow> bool \<Rightarrow> effect list \<times> (py_exception + unit)" where
  "composicao_histograma_boxplot env titulo nome_arquivo salvar =
     (let (pre, continua) = garantir_pasta env salvar in
      if \<not> continua then (pre, Inr ())
      else
        (case draw_result env of
           Some e \<Rightarrow> (pre, Inl e)
         | None \<Rightarrow>
             (pre @ [Draw titulo] @ salvar_grafico env nome_arquivo salvar @ [Show], Inr ())))"

section \<open>The numeric library routines\<close>

text \<open>
  A sample is a Python sequence of floats. In this section floats are idealised as real
  numbers: every operation is exact. The rounding of the operations is added in the
  section on IEEE double arithmetic, for the claims that depend on it. A result of type
  \<open>real option\<close> is \<open>None\<close> where IEEE arithmetic gives no finite real: NaN (\<open>np.nan\<close>,
  an empty mean, \<open>0/0\<close>) or an infinity (a nonzero value divided by zero). The source
  never raises in these cases; it propagates the special value.

  numpy and scipy are libraries outside the repository. Their routines are defined here
  as their documentation and section 4.1 of the specification describe them.
\<close>

definition np_mean :: "real list \<Rightarrow> real option" where
  \<comment> \<open>Modelled from the spec: \<open>numpy.mean\<close> is a library routine, absent from src/;
      the arithmetic mean, NaN on an empty sample.\<close>
  "np_mean a = (if a = [] then None else Some (sum_list a / real (length a)))"

definition moment :: "real list \<Rightarrow> nat \<Rightarrow> real" where
  \<comment> \<open>Modelled from the spec: \<open>scipy.stats.moment\<close> is a library routine, absent from
      src/; the k-th central moment with divisor n (the population moment).\<close>
  "moment a k = (\<Sum>x\<leftarrow>a. (x - sum_list a / real (length a)) ^ k) / real (length a)"

definition np_var :: "real list \<Rightarrow> nat \<Rightarrow> real option" where
  \<comment> \<open>Modelled from the spec: \<open>numpy.var\<close> is a library routine, absent from src/;
      the sum of squared deviations from the mean divided by n - ddof, not finite when
      n - ddof is not positive.\<close>
  "np_var a ddof =
     (if length a \<le> ddof then None
      else Some ((\<Sum>x\<leftarrow>a. (x - sum_list a / real (length a)) ^ 2) / real (length a - ddof)))"

definition np_std :: "real list \<Rightarrow> nat \<Rightarrow> real option" where
  \<comment> \<open>Modelled from the spec: \<open>numpy.std\<close> is a library routine, absent from src/;
      the square root of \<open>numpy.var\<close> with the same ddof.\<close>
  "np_std a ddof = map_option sqrt (np_var a ddof)"

definition skew :: "real list \<Rightarrow> real option" where
  \<comment> \<open>Modelled from the spec: \<open>scipy.stats.skew\<close> is a library routine, absent from
      src/; the third standardized population moment, NaN when the second moment is 0.\<close>
  "skew a =
     (if a = [] \<or> moment a 2 = 0 then None
      else Some (moment a 3 / (moment a 2) powr (3 / 2)))"

definition kurtosis :: "real list \<Rightarrow> bool \<Rightarrow> real option" where
  \<comment> \<open>Modelled from the spec: \<open>scipy.stats.kurtosis\<close> is a library routine, absent from
      src/; the fourth standardized population moment, from which 3 is subtracted when
      the flag \<open>fisher\<close> is set; NaN when the second moment is 0.\<close>
  "kurtosis a fisher =
     (if a = [] \<or> moment a 2 = 0 then None
      else (let vals = moment a 4 / (moment a 2) ^ 2
            in Some (if fisher then vals - 3 else vals)))"

definition np_median :: "real list \<Rightarrow> real option" where
  \<comment> \<open>Modelled from the spec: \<open>numpy.median\<close> is a library routine, absent from src/;
      the middle element of the sorted sample, or the mean of the two middle elements
      when the length is even; NaN on an empty sample.\<close>
  "np_median a =
     (if a = [] then None
      else (let s = sort a; n = length a
            in if odd n then Some (s ! (n div 2))
               else Some ((s ! (n div 2 - 1) + s ! (n div 2)) / 2)))"

definition np_percentile :: "real list \<Rightarrow> real \<Rightarrow> real option" where
  \<comment> \<open>Modelled from the spec: \<open>numpy.percentile\<close> is a library routine, absent from
      src/; linear interpolation between the closest ranks of the sorted sample, for a
      percentage q between 0 and 100 (the source passes 25, 50 and 75); NaN on an empty
      sample.\<close>
  "np_percentile a q =
     (if a = [] then None
      else (let s = sort a; n = length a;
                idx = q / 100 * real (n - 1);
                lo = nat \<lfloor>idx\<rfloor>;
                hi = min (lo + 1) (n - 1);
                g = idx - real lo
            in Some (s ! lo + g * (s ! hi - s ! lo))))"

text \<open>
  \<open>scipy.stats.mode\<close> counts the sorted distinct values of the sample and takes the
  first maximum of the counts (\<open>numpy.argmax\<close>), so of several most frequent values
  the smallest is reported. With \<open>keepdims=True\<close> both results are arrays of length 1;
  on an empty sample both arrays are empty.
\<close>

record ModeResult =
  mode :: "real list"
  count :: "nat list"

fun argmax_from :: "nat list \<Rightarrow> nat \<Rightarrow> nat \<Rightarrow> nat \<Rightarrow> nat" where
  "argmax_from [] i b m = b"
| "argmax_from (x # xs) i b m =
     (if m < x then argmax_from xs (Suc i) i x else argmax_from xs (Suc i) b m)"

definition np_argmax :: "nat list \<Rightarrow> nat" where
  \<comment> \<open>Modelled from the spec: \<open>numpy.argmax\<close> is a library routine, absent from src/;
      the index of the first maximum of a non-empty array.\<close>
  "np_argmax xs = (case xs of [] \<Rightarrow> 0 | x # r \<Rightarrow> argmax_from r 1 0 x)"

definition np_unique :: "real list \<Rightarrow> real list" where
  \<comment> \<open>Modelled from the spec: \<open>numpy.unique\<close> is a library routine, absent from src/;
      the sorted distinct values.\<close>
  "np_unique a = remdups (sort a)"

definition stats_mode :: "real list \<Rightarrow> ModeResult" where
  \<comment> \<open>Modelled from the spec: \<open>scipy.stats.mode\<close> (called with \<open>keepdims=True\<close>) is a
      library routine, absent from src/; the most frequent value, the smallest one when
      several values are equally frequent.\<close>
  "stats_mode a =
     (if a = [] then \<lparr>mode = [], count = []\<rparr>
      else (let vals = np_unique a;
                cnts = map (count_list a) vals;
                i = np_argmax cnts
            in \<lparr>mode = [vals ! i], count = [cnts ! i]\<rparr>))"

section \<open>The store\<close>

text \<open>
  The statistics routines receive references to samples. The store maps each reference
  to the sample it holds; the console is the list of lines printed so far.
\<close>

datatype linha =
    Banner
  | Regua
  | Titulo string string
  | Hipoteses string string
  | CabecalhoResultados
  | LinhaVariancia string "real option"
  | LinhaF "real option"
  | LinhaGrausLiberdade int int
  | LinhaPValor "real option"
  | Decisao "bool option"

record py_state =
  heap :: "nat \<Rightarrow> real list"
  stdout :: "linha list"

section \<open>calcular\_estatisticas\<close>

text \<open>
  The dictionary returned by the routine, one field per key, in the order of the source:
  Media, Mediana, Moda, Variancia, Desvio Padrao, Assimetria, Curtose, 1o Quartil,
  2o Quartil (Mediana), 3o Quartil.
\<close>

record estatisticas =
  Media :: "real option"
  Mediana :: "real option"
  Moda :: "real option"
  Variancia :: "real option"
  Desvio_Padrao :: "real option"
  Assimetria :: "real option"
  Curtose :: "real option"
  Quartil_1 :: "real option"
  Quartil_2_Mediana :: "real option"
  Quartil_3 :: "real option"

text \<open>Line 165: the first entry of the mode array, or NaN when the array is empty.\<close>

definition moda_de :: "ModeResult \<Rightarrow> real option" where
  "moda_de moda_result =
     (if length (mode moda_result) > 0 then Some (mode moda_result ! 0) else None)"

text \<open>Lines 161 to 173, on the value of the sample.\<close>

definition calcular_estatisticas_body :: "real list \<Rightarrow> estatisticas" where
  "calcular_estatisticas_body amostra =
     (let moda_result = stats_mode amostra
      in \<lparr>Media = np_mean amostra,
          Mediana = np_median amostra,
          Moda = moda_de moda_result,
          Variancia = np_var amostra 1,
          Desvio_Padrao = np_std amostra 1,
          Assimetria = skew amostra,
          Curtose = kurtosis amostra False,
          Quartil_1 = np_percentile amostra 25,
          Quartil_2_Mediana = np_percentile amostra 50,
          Quartil_3 = np_percentile amostra 75\<rparr>)"

definition calcular_estatisticas :: "nat \<Rightarrow> py_state \<Rightarrow> estatisticas \<times> py_state" where
  "calcular_estatisticas amostra s = (calcular_estatisticas_body (heap s amostra), s)"

section \<open>teste\_f\_variancias\<close>

text \<open>
  Comparison and division of floats that may be NaN: a comparison with NaN is False, a
  division by zero is not finite. Once a value is \<open>None\<close> every value computed from it
  is \<open>None\<close>: what IEEE arithmetic goes on to compute from an infinite F (a p-value
  of 0) is not modelled. The claims below concern samples with positive variances, where
  every value is a finite real.
\<close>

definition float_gt :: "real option \<Rightarrow> real option \<Rightarrow> bool" where
  "float_gt x y = (case (x, y) of (Some a, Some b) \<Rightarrow> b < a | _ \<Rightarrow> False)"

definition float_div :: "real option \<Rightarrow> real option \<Rightarrow> real option" where
  "float_div x y =
     (case (x, y) of (Some a, Some b) \<Rightarrow> (if b = 0 then None else Some (a / b)) | _ \<Rightarrow> None)"

text \<open>The local variables of lines 188 to 201.\<close>

record teste_f_locals =
  var1 :: "real option"
  var2 :: "real option"
  F :: "real option"
  df1 :: int
  df2 :: int
  p_value_one_tailed :: "real option"
  p_value_two_tailed :: "real option"

text \<open>
  \<open>scipy.stats.f.cdf\<close>, the cumulative distribution function of the F distribution, is
  a library routine: it is the parameter \<open>cdf\<close> of the test.
\<close>

definition teste_f_calculo ::
  "(real \<Rightarrow> int \<Rightarrow> int \<Rightarrow> real) \<Rightarrow> real list \<Rightarrow> real list \<Rightarrow> teste_f_locals" where
  "teste_f_calculo cdf amostra1 amostra2 =
     (let v1 = np_var amostra1 1;
          v2 = np_var amostra2 1;
          (f, d1, d2) =
            (if float_gt v1 v2
             then (float_div v1 v2, int (length amostra1) - 1, int (length amostra2) - 1)
             else (float_div v2 v1, int (length amostra2) - 1, int (length amostra1) - 1));
          p_one = map_option (\<lambda>x. 1 - cdf x d1 d2) f;
          p_two = map_option (\<lambda>p. 2 * min p (1 - p)) p_one
      in \<lparr>var1 = v1, var2 = v2, F = f, df1 = d1, df2 = d2,
          p_value_one_tailed = p_one, p_value_two_tailed = p_two\<rparr>)"

text \<open>
  The lines printed: lines 177 to 185 before the computation, lines 204 to 221 after
  it. A line carries the value it prints; the rounding to 5 or 2 decimals is not
  modelled. The decision is \<open>None\<close> where the p-value is \<open>None\<close>.
\<close>

definition teste_f_cabecalho :: "string \<Rightarrow> string \<Rightarrow> linha list" where
  "teste_f_cabecalho nome1 nome2 = [Banner, Titulo nome1 nome2, Banner, Hipoteses nome1 nome2]"

definition teste_f_resultados ::
  "string \<Rightarrow> string \<Rightarrow> real \<Rightarrow> teste_f_locals \<Rightarrow> linha list" where
  "teste_f_resultados nome1 nome2 alpha l =
     [Banner, CabecalhoResultados, Banner,
      LinhaVariancia nome1 (var1 l),
      LinhaVariancia nome2 (var2 l),
      LinhaF (F l),
      LinhaGrausLiberdade (df1 l) (df2 l),
      Regua,
      LinhaPValor (map_option (\<lambda>p. p * 100) (p_value_two_tailed l)),
      Regua,
      Decisao (map_option (\<lambda>p. p < alpha) (p_value_two_tailed l)),
      Banner]"

definition teste_f_variancias ::
  "(real \<Rightarrow> int \<Rightarrow> int \<Rightarrow> real) \<Rightarrow> nat \<Rightarrow> nat \<Rightarrow> string \<Rightarrow> string \<Rightarrow> real \<Rightarrow> py_state
     \<Rightarrow> real option \<times> py_state" where
  "teste_f_variancias cdf amostra1 amostra2 nome1 nome2 alpha s =
     (let l = teste_f_calculo cdf (heap s amostra1) (heap s amostra2)
      in (p_value_two_tailed l,
          s\<lparr>stdout := stdout s @ teste_f_cabecalho nome1 nome2
                        @ teste_f_resultados nome1 nome2 alpha l\<rparr>))"

section \<open>IEEE double arithmetic\<close>

text \<open>
  Where a claim is about the very floats the routines return, the rounding of each
  operation matters. A double is a real number of the form \<open>m * 2 ^ (e - 52)\<close> with an
  integer \<open>m\<close> of at most 53 bits; \<open>round_double\<close> rounds a real to the nearest double,
  ties to the even significand, with the subnormal exponent \<open>- 1022\<close> as the least one,
  and gives \<open>None\<close> where the rounded value overflows to an infinity. An operation on
  doubles is the exact operation followed by this rounding.
\<close>

definition round_half_even :: "real \<Rightarrow> int" where
  "round_half_even q =
     (let f = \<lfloor>q\<rfloor>; d = q - real_of_int f
      in if d < 1 / 2 then f else if 1 / 2 < d then f + 1 else if even f then f else f + 1)"

definition f64_exponent :: "real \<Rightarrow> int" where
  "f64_exponent x = max \<lfloor>log 2 \<bar>x\<bar>\<rfloor> (- 1022)"

definition round_double :: "real \<Rightarrow> real option" where
  "round_double x =
     (if x = 0 then Some 0
      else (let ulp = 2 powi (f64_exponent x - 52);
                y = real_of_int (round_half_even (x / ulp)) * ulp
            in if 2 ^ 1024 \<le> \<bar>y\<bar> then None else Some y))"


definition f64_sub :: "real \<Rightarrow> real \<Rightarrow> real option" where
  "f64_sub x y = round_double (x - y)"

definition f64_mul :: "real \<Rightarrow> real \<Rightarrow> real option" where
  "f64_mul x y = round_double (x * y)"





text \<open>
  Lines 200 and 201 in double arithmetic, on the double \<open>c\<close> that the distribution
  function returned.
\<close>

definition p_value_two_tailed_f64 :: "real \<Rightarrow> real option" where
  "p_value_two_tailed_f64 c =
     Option.bind (f64_sub 1 c) (\<lambda>p_one.
       Option.bind (f64_sub 1 p_one) (\<lambda>q. f64_mul 2 (min p_one q)))"

section \<open>Definitions after the specification's words\<close>

text \<open>
  The k-th standardized moment of a sample, as the specification names it: the mean of
  the k-th powers of the deviations from the mean, each divided by the population
  standard deviation.
\<close>

definition standardized_moment :: "real list \<Rightarrow> nat \<Rightarrow> real" where
  "standardized_moment a k =
     (\<Sum>x\<leftarrow>a. ((x - sum_list a / real (length a)) / sqrt (moment a 2)) ^ k) / real (length a)"

section \<open>Concrete inputs\<close>

text \<open>
  A function with the two properties of the F distribution's cumulative distribution
  function that the theorems below assume: its values lie between 0 and 1, and at 1 the
  values for swapped degrees of freedom add up to 1. For two degrees of freedom each it
  is the F distribution's own function \<open>x / (1 + x)\<close>.
\<close>

definition cdf_exemplo :: "real \<Rightarrow> int \<Rightarrow> int \<Rightarrow> real" where
  "cdf_exemplo x d1 d2 =
     (if x \<le> 0 \<or> d1 < 1 \<or> d2 < 1 then 0
      else real_of_int d1 * x / (real_of_int d1 * x + real_of_int d2))"

text \<open>
  A distribution function as a double-precision routine returns it. At 1, for the
  degrees of freedom (3, 1) and (1, 3), the F distribution's function takes the values
  \<open>2/3 - sqrt 3 / (2 * pi)\<close> and \<open>1/3 + sqrt 3 / (2 * pi)\<close>, which add up to 1; the
  doubles 0.3910022189557705 and 0.6089977810442293 taken here agree with them to 15
  digits and add up to \<open>1 - 1 / 2 ^ 52\<close>.
\<close>

definition cdf_f64_exemplo :: "real \<Rightarrow> int \<Rightarrow> int \<Rightarrow> real" where
  "cdf_f64_exemplo x d1 d2 =
     (if x = 1 \<and> d1 = 3 \<and> d2 = 1 then 1760917447590245 / 2 ^ 52
      else if x = 1 \<and> d1 = 1 \<and> d2 = 3 then 1371341089890125 / 2 ^ 51
      else cdf_exemplo x d1 d2)"

text \<open>
  A store with three samples: reference 0 holds \<open>[0, 2]\<close>, reference 1 holds
  \<open>[1, 1, -2, 0]\<close> (both of variance 2), every other reference holds \<open>[2, 3, 3, 1, 7]\<close>.
\<close>

definition estado_exemplo :: py_state where
  "estado_exemplo =
     \<lparr>heap = (\<lambda>r. if r = 0 then [0, 2] else if r = 1 then [1, 1, - 2, 0] else [2, 3, 3, 1, 7]),
      stdout = []\<rparr>"

section \<open>Facts about the library routines\<close>

lemma argmax_from_first_max:
  assumes "i = length pre" "b < length pre" "m = pre ! b"
    and "\<forall>j < length pre. pre ! j \<le> m"
    and "\<forall>j < b. pre ! j < m"
  shows "argmax_from xs i b m < length (pre @ xs)
    \<and> (\<forall>j < length (pre @ xs). (pre @ xs) ! j \<le> (pre @ xs) ! argmax_from xs i b m)
    \<and> (\<forall>j < argmax_from xs i b m. (pre @ xs) ! j < (pre @ xs) ! argmax_from xs i b m)"
  using assms
proof (induction xs arbitrary: pre i b m)
  case Nil
  then show ?case by simp
next
  case (Cons x xs)
  show ?case
  proof (cases "m < x")
    case True
    have a: "Suc i = length (pre @ [x])" using Cons.prems by simp
    have b: "i < length (pre @ [x])" using Cons.prems by simp
    have c: "x = (pre @ [x]) ! i" using Cons.prems by simp
    have d: "\<forall>j < length (pre @ [x]). (pre @ [x]) ! j \<le> x"
      using Cons.prems True by (auto simp: nth_append less_Suc_eq intro: order_trans less_imp_le)
    have e: "\<forall>j < i. (pre @ [x]) ! j < x"
      using Cons.prems True by (auto simp: nth_append intro: le_less_trans)
    from Cons.IH[OF a b c d e] True show ?thesis by simp
  next
    case False
    have a: "Suc i = length (pre @ [x])" using Cons.prems by simp
    have b: "b < length (pre @ [x])" using Cons.prems by simp
    have c: "m = (pre @ [x]) ! b" using Cons.prems by (simp add: nth_append)
    have d: "\<forall>j < length (pre @ [x]). (pre @ [x]) ! j \<le> m"
      using Cons.prems False by (auto simp: nth_append less_Suc_eq)
    have e: "\<forall>j < b. (pre @ [x]) ! j < m"
      using Cons.prems by (auto simp: nth_append)
    from Cons.IH[OF a b c d e] False show ?thesis by simp
  qed
qed



lemma np_argmax_first_max:
  assumes "xs \<noteq> []"
  shows "np_argmax xs < length xs
    \<and> (\<forall>j < length xs. xs ! j \<le> xs ! np_argmax xs)
    \<and> (\<forall>j < np_argmax xs. xs ! j < xs ! np_argmax xs)"
proof -
  obtain x r where xs: "xs = x # r" using assms by (cases xs) auto
  have "argmax_from r 1 0 x < length ([x] @ r)
    \<and> (\<forall>j < length ([x] @ r). ([x] @ r) ! j \<le> ([x] @ r) ! argmax_from r 1 0 x)
    \<and> (\<forall>j < argmax_from r 1 0 x. ([x] @ r) ! j < ([x] @ r) ! argmax_from r 1 0 x)"
    by (rule argmax_from_first_max) simp_all
  then show ?thesis
    by (simp add: xs np_argmax_def)
qed

lemma np_unique_props:
  "sorted (np_unique a)" "distinct (np_unique a)" "set (np_unique a) = set a"
  by (simp_all add: np_unique_def)


lemma stats_mode_most_frequent:
  assumes "a \<noteq> []"
  shows "\<exists>m. mode (stats_mode a) = [m] \<and> m \<in> set a
    \<and> (\<forall>x. count_list a x \<le> count_list a m)
    \<and> (\<forall>x \<in> set a. count_list a x = count_list a m \<longrightarrow> m \<le> x)"
proof -
  define vals where "vals = np_unique a"
  define cnts where "cnts = map (count_list a) vals"
  define i where "i = np_argmax cnts"
  have srt: "sorted vals" and sv: "set vals = set a"
    by (simp_all add: vals_def np_unique_props)
  have "vals \<noteq> []" using assms sv by auto
  then have ne: "cnts \<noteq> []" by (simp add: cnts_def)
  have len: "length cnts = length vals" by (simp add: cnts_def)
  have i1: "i < length vals"
    using np_argmax_first_max[OF ne] by (simp add: i_def len)
  have i2: "cnts ! j \<le> cnts ! i" if "j < length vals" for j
    using np_argmax_first_max[OF ne] that by (simp add: i_def len)
  have i3: "cnts ! j < cnts ! i" if "j < i" for j
    using np_argmax_first_max[OF ne] that by (simp add: i_def)
  have cn: "cnts ! j = count_list a (vals ! j)" if "j < length vals" for j
    using that by (simp add: cnts_def)
  have m: "mode (stats_mode a) = [vals ! i]"
    using assms by (simp add: stats_mode_def Let_def vals_def cnts_def i_def)
  have mem: "vals ! i \<in> set a"
    using i1 sv nth_mem by blast
  have most: "count_list a x \<le> count_list a (vals ! i)" for x
  proof (cases "x \<in> set a")
    case True
    then have "x \<in> set vals" using sv by simp
    then obtain j where j: "j < length vals" "vals ! j = x"
      by (auto simp: in_set_conv_nth)
    have "cnts ! j \<le> cnts ! i" using i2 j(1) by simp
    then show ?thesis using cn[OF j(1)] cn[OF i1] j(2) by simp
  next
    case False
    then show ?thesis by (simp add: count_list_0_iff)
  qed
  have least: "vals ! i \<le> x" if x: "x \<in> set a" "count_list a x = count_list a (vals ! i)" for x
  proof -
    have "x \<in> set vals" using sv x(1) by simp
    then obtain j where j: "j < length vals" "vals ! j = x"
      by (auto simp: in_set_conv_nth)
    have "\<not> j < i"
    proof
      assume "j < i"
      then have "cnts ! j < cnts ! i" using i3 by simp
      then show False using cn[OF j(1)] cn[OF i1] j(2) x(2) by simp
    qed
    then have "i \<le> j" by simp
    then have "vals ! i \<le> vals ! j" using sorted_nth_mono[OF srt _ j(1)] by simp
    then show ?thesis using j(2) by simp
  qed
  show ?thesis using m mem most least by blast
qed







lemma sq_dev_sum_nonneg:
  "0 \<le> (\<Sum>x\<leftarrow>a. (x - c) ^ 2)" for c :: real
  by (rule sum_list_nonneg) auto

lemma np_var_ddof1:
  assumes "2 \<le> length a"
  shows "np_var a 1
    = Some ((\<Sum>x\<leftarrow>a. (x - sum_list a / real (length a)) ^ 2) / real (length a - 1))"
  using assms by (simp add: np_var_def)

lemma np_var_nonneg:
  assumes "np_var a ddof = Some v"
  shows "0 \<le> v \<and> ddof < length a"
proof -
  have lt: "ddof < length a" using assms by (simp add: np_var_def split: if_splits)
  have "v = (\<Sum>x\<leftarrow>a. (x - sum_list a / real (length a)) ^ 2) / real (length a - ddof)"
    using assms by (simp add: np_var_def split: if_splits)
  then have "0 \<le> v" using sq_dev_sum_nonneg[where a = a] lt by simp
  then show ?thesis using lt by simp
qed

lemma teste_f_calculo_finite:
  assumes "np_var a 1 = Some va" "np_var b 1 = Some vb" "0 < va" "0 < vb"
  shows "teste_f_calculo cdf a b =
    (if vb < va
     then \<lparr>var1 = Some va, var2 = Some vb, F = Some (va / vb),
           df1 = int (length a) - 1, df2 = int (length b) - 1,
           p_value_one_tailed = Some (1 - cdf (va / vb) (int (length a) - 1) (int (length b) - 1)),
           p_value_two_tailed =
             Some (2 * min (1 - cdf (va / vb) (int (length a) - 1) (int (length b) - 1))
                           (1 - (1 - cdf (va / vb) (int (length a) - 1) (int (length b) - 1))))\<rparr>
     else \<lparr>var1 = Some va, var2 = Some vb, F = Some (vb / va),
           df1 = int (length b) - 1, df2 = int (length a) - 1,
           p_value_one_tailed = Some (1 - cdf (vb / va) (int (length b) - 1) (int (length a) - 1)),
           p_value_two_tailed =
             Some (2 * min (1 - cdf (vb / va) (int (length b) - 1) (int (length a) - 1))
                           (1 - (1 - cdf (vb / va) (int (length b) - 1) (int (length a) - 1))))\<rparr>)"
  using assms by (simp add: teste_f_calculo_def float_gt_def float_div_def Let_def)

lemma moment_2_nonneg: "0 \<le> moment a 2"
  unfolding moment_def using sq_dev_sum_nonneg[where a = a] by simp

lemma sum_list_divide_const:
  "(\<Sum>x\<leftarrow>a. f x / c) = (\<Sum>x\<leftarrow>a. f x) / c" for c :: real
  by (induction a) (simp_all add: add_divide_distrib)

lemma standardized_moment_4:
  assumes "moment a 2 \<noteq> 0"
  shows "standardized_moment a 4 = moment a 4 / (moment a 2) ^ 2"
proof -
  have pos: "0 \<le> moment a 2" by (rule moment_2_nonneg)
  have sq: "sqrt (moment a 2) ^ 4 = (moment a 2) ^ 2"
  proof -
    have "sqrt (moment a 2) ^ 4 = (sqrt (moment a 2) ^ 2) ^ 2" by simp
    then show ?thesis using pos by simp
  qed
  have "(\<Sum>x\<leftarrow>a. ((x - sum_list a / real (length a)) / sqrt (moment a 2)) ^ 4)
      = (\<Sum>x\<leftarrow>a. (x - sum_list a / real (length a)) ^ 4 / (moment a 2) ^ 2)"
    by (simp add: power_divide sq)
  also have "\<dots> = (\<Sum>x\<leftarrow>a. (x - sum_list a / real (length a)) ^ 4) / (moment a 2) ^ 2"
    by (rule sum_list_divide_const)
  finally show ?thesis
    by (simp add: standardized_moment_def moment_def)
qed

lemma distinct_count_list_1:
  "distinct a \<Longrightarrow> x \<in> set a \<Longrightarrow> count_list a x = 1"
  by (induction a) (auto simp: count_list_0_iff)

lemma f64_exponent_eq:
  assumes "2 powi e \<le> \<bar>x\<bar>" and "\<bar>x\<bar> < 2 powi (e + 1)" and "- 1022 \<le> e"
  shows "f64_exponent x = e"
proof -
  have p0: "(0::real) < 2 powi e" by simp
  have pos: "0 < \<bar>x\<bar>" using assms(1) p0 by linarith
  have a: "2 powr real_of_int e = (2::real) powi e"
    by (simp add: powr_real_of_int')
  have b: "2 powr (real_of_int e + 1) = (2::real) powi (e + 1)"
    using powr_real_of_int'[of 2 "e + 1"] by simp
  have "\<lfloor>log 2 \<bar>x\<bar>\<rfloor> = e"
    using assms(1,2) pos by (simp add: floor_log_eq_powr_iff a b)
  then show ?thesis using assms(3) by (simp add: f64_exponent_def)
qed

lemma round_double_eval:
  assumes "- 1022 \<le> e" and "2 powi e \<le> \<bar>x\<bar>" and "\<bar>x\<bar> < 2 powi (e + 1)"
    and "2 powi (e - 52) = u"
    and "round_half_even (x / u) = m"
    and "\<bar>real_of_int m * u\<bar> < 2 ^ 1024"
  shows "round_double x = Some (real_of_int m * u)"
proof -
  have p0: "(0::real) < 2 powi e" by simp
  have nz: "x \<noteq> 0"
  proof
    assume "x = 0"
    then have "2 powi e \<le> (0::real)" using assms(2) by simp
    then show False using p0 by linarith
  qed
  have ex: "f64_exponent x = e" by (rule f64_exponent_eq[OF assms(2,3,1)])
  show ?thesis
    using nz assms(5,6)
    by (simp add: round_double_def Let_def ex assms(4))
qed



section \<open>Facts about the concrete inputs\<close>

lemma exemplo_vars:
  "np_var [0, 2] 1 = Some 2"
  "np_var [1, 1, - 2, 0] 1 = Some 2"
  "np_var [2, 3, 3, 1, 7] 1 = Some (26 / 5)"
  by (simp_all add: np_var_def power2_eq_square)

lemma exemplo_heap:
  "heap estado_exemplo 0 = [0, 2]"
  "heap estado_exemplo 1 = [1, 1, - 2, 0]"
  "heap estado_exemplo 2 = [2, 3, 3, 1, 7]"
  "heap estado_exemplo (Suc 0) = [1, 1, - 2, 0]"
  by (simp_all add: estado_exemplo_def)

lemma exemplo_lengths:
  "2 \<le> length (heap estado_exemplo 0)"
  "2 \<le> length (heap estado_exemplo 1)"
  "2 \<le> length (heap estado_exemplo 2)"
  by (simp_all add: estado_exemplo_def)

lemma exemplo_heap_vars:
  "np_var (heap estado_exemplo 0) 1 = Some 2"
  "np_var (heap estado_exemplo 1) 1 = Some 2"
  "np_var (heap estado_exemplo 2) 1 = Some (26 / 5)"
  by (simp_all only: exemplo_heap exemplo_vars)

lemma cdf_exemplo_range: "0 \<le> cdf_exemplo x d1 d2 \<and> cdf_exemplo x d1 d2 \<le> 1"
proof (cases "x \<le> 0 \<or> d1 < 1 \<or> d2 < 1")
  case True
  then show ?thesis by (auto simp: cdf_exemplo_def)
next
  case False
  then have pos: "0 < real_of_int d1 * x" "0 < real_of_int d2" by simp_all
  have "real_of_int d1 * x / (real_of_int d1 * x + real_of_int d2) \<le> 1"
    using pos by (simp add: divide_le_eq)
  moreover have "0 \<le> real_of_int d1 * x / (real_of_int d1 * x + real_of_int d2)"
    using pos by simp
  ultimately show ?thesis using False by (simp add: cdf_exemplo_def)
qed

lemma cdf_exemplo_reciprocal:
  "1 \<le> d1 \<and> 1 \<le> d2 \<longrightarrow> cdf_exemplo 1 d1 d2 + cdf_exemplo 1 d2 d1 = 1"
proof
  assume d: "1 \<le> d1 \<and> 1 \<le> d2"
  then have nz: "real_of_int d1 + real_of_int d2 \<noteq> 0" by simp
  have "real_of_int d1 / (real_of_int d1 + real_of_int d2)
      + real_of_int d2 / (real_of_int d2 + real_of_int d1) = 1"
    using nz by (simp add: add.commute flip: add_divide_distrib)
  then show "cdf_exemplo 1 d1 d2 + cdf_exemplo 1 d2 d1 = 1"
    using d by (simp add: cdf_exemplo_def)
qed

lemma exemplo_calculo_2_0:
  "teste_f_calculo cdf_exemplo [2, 3, 3, 1, 7] [0, 2] =
     \<lparr>var1 = Some (26 / 5), var2 = Some 2, F = Some (13 / 5), df1 = 4, df2 = 1,
      p_value_one_tailed = Some (5 / 57), p_value_two_tailed = Some (10 / 57)\<rparr>"
proof -
  have p1: "(0::real) < 26 / 5" and p2: "(0::real) < 2" by simp_all
  show ?thesis
    by (simp add: teste_f_calculo_finite[OF exemplo_vars(3) exemplo_vars(1) p1 p2]
        cdf_exemplo_def)
qed

lemma exemplo_calculo_0_1:
  "teste_f_calculo cdf_exemplo [0, 2] [1, 1, - 2, 0] =
     \<lparr>var1 = Some 2, var2 = Some 2, F = Some 1, df1 = 3, df2 = 1,
      p_value_one_tailed = Some (1 / 4), p_value_two_tailed = Some (1 / 2)\<rparr>"
proof -
  have p2: "(0::real) < 2" by simp
  show ?thesis
    by (simp add: teste_f_calculo_finite[OF exemplo_vars(1) exemplo_vars(2) p2 p2]
        cdf_exemplo_def)
qed

lemma exemplo_calculo_1_0:
  "teste_f_calculo cdf_exemplo [1, 1, - 2, 0] [0, 2] =
     \<lparr>var1 = Some 2, var2 = Some 2, F = Some 1, df1 = 1, df2 = 3,
      p_value_one_tailed = Some (3 / 4), p_value_two_tailed = Some (1 / 2)\<rparr>"
proof -
  have p2: "(0::real) < 2" by simp
  show ?thesis
    by (simp add: teste_f_calculo_finite[OF exemplo_vars(2) exemplo_vars(1) p2 p2]
        cdf_exemplo_def)
qed

lemma exemplo_moments:
  "moment [0, 2] 2 = 1" "moment [0, 2] 4 = 1"
  by (simp_all add: moment_def)







lemma exemplo_round_p_one_31: "round_double (2742682179780251 / 2 ^ 52) = Some (2742682179780251 / 2 ^ 52)"
proof -
  have "round_double (2742682179780251 / 2 ^ 52)
      = Some (real_of_int 5485364359560502 * (1 / 2 ^ 53))"
    by (rule round_double_eval[where e = "- 1"])
      (simp_all add: round_half_even_def Let_def power_int_minus_divide)
  then show ?thesis by simp
qed

lemma exemplo_round_q_31: "round_double (1760917447590245 / 2 ^ 52) = Some (1760917447590245 / 2 ^ 52)"
proof -
  have "round_double (1760917447590245 / 2 ^ 52)
      = Some (real_of_int 7043669790360980 * (1 / 2 ^ 54))"
    by (rule round_double_eval[where e = "- 2"])
      (simp_all add: round_half_even_def Let_def power_int_minus_divide)
  then show ?thesis by simp
qed

lemma exemplo_round_p_two_31: "round_double (1760917447590245 / 2 ^ 51) = Some (1760917447590245 / 2 ^ 51)"
proof -
  have "round_double (1760917447590245 / 2 ^ 51)
      = Some (real_of_int 7043669790360980 * (1 / 2 ^ 53))"
    by (rule round_double_eval[where e = "- 1"])
      (simp_all add: round_half_even_def Let_def power_int_minus_divide)
  then show ?thesis by simp
qed

lemma exemplo_round_p_one_13: "round_double (880458723795123 / 2 ^ 51) = Some (880458723795123 / 2 ^ 51)"
proof -
  have "round_double (880458723795123 / 2 ^ 51)
      = Some (real_of_int 7043669790360984 * (1 / 2 ^ 54))"
    by (rule round_double_eval[where e = "- 2"])
      (simp_all add: round_half_even_def Let_def power_int_minus_divide)
  then show ?thesis by simp
qed

lemma exemplo_round_q_13: "round_double (1371341089890125 / 2 ^ 51) = Some (1371341089890125 / 2 ^ 51)"
proof -
  have "round_double (1371341089890125 / 2 ^ 51)
      = Some (real_of_int 5485364359560500 * (1 / 2 ^ 53))"
    by (rule round_double_eval[where e = "- 1"])
      (simp_all add: round_half_even_def Let_def power_int_minus_divide)
  then show ?thesis by simp
qed

lemma exemplo_round_p_two_13: "round_double (880458723795123 / 2 ^ 50) = Some (880458723795123 / 2 ^ 50)"
proof -
  have "round_double (880458723795123 / 2 ^ 50)
      = Some (real_of_int 7043669790360984 * (1 / 2 ^ 53))"
    by (rule round_double_eval[where e = "- 1"])
      (simp_all add: round_half_even_def Let_def power_int_minus_divide)
  then show ?thesis by simp
qed





lemma cdf_f64_exemplo_values:
  "cdf_f64_exemplo 1 3 1 = 1760917447590245 / 2 ^ 52"
  "cdf_f64_exemplo 1 1 3 = 1371341089890125 / 2 ^ 51"
  "\<bar>cdf_f64_exemplo 1 3 1 + cdf_f64_exemplo 1 1 3 - 1\<bar> = 1 / 2 ^ 52"
  by (simp_all add: cdf_f64_exemplo_def)

lemma exemplo_p_value_f64:
  "p_value_two_tailed_f64 (1760917447590245 / 2 ^ 52) = Some (1760917447590245 / 2 ^ 51)"
  "p_value_two_tailed_f64 (1371341089890125 / 2 ^ 51) = Some (880458723795123 / 2 ^ 50)"
proof -
  have a1: "f64_sub 1 (1760917447590245 / 2 ^ 52) = Some (2742682179780251 / 2 ^ 52)"
    using exemplo_round_p_one_31 by (simp add: f64_sub_def)
  have a2: "f64_sub 1 (2742682179780251 / 2 ^ 52) = Some (1760917447590245 / 2 ^ 52)"
    using exemplo_round_q_31 by (simp add: f64_sub_def)
  have a3: "f64_mul 2 (1760917447590245 / 2 ^ 52) = Some (1760917447590245 / 2 ^ 51)"
    using exemplo_round_p_two_31 by (simp add: f64_mul_def)
  show "p_value_two_tailed_f64 (1760917447590245 / 2 ^ 52) = Some (1760917447590245 / 2 ^ 51)"
    using a1 a2 a3 by (simp add: p_value_two_tailed_f64_def)
  have b1: "f64_sub 1 (1371341089890125 / 2 ^ 51) = Some (880458723795123 / 2 ^ 51)"
    using exemplo_round_p_one_13 by (simp add: f64_sub_def)
  have b2: "f64_sub 1 (880458723795123 / 2 ^ 51) = Some (1371341089890125 / 2 ^ 51)"
    using exemplo_round_q_13 by (simp add: f64_sub_def)
  have b3: "f64_mul 2 (880458723795123 / 2 ^ 51) = Some (880458723795123 / 2 ^ 50)"
    using exemplo_round_p_two_13 by (simp add: f64_mul_def)
  show "p_value_two_tailed_f64 (1371341089890125 / 2 ^ 51) = Some (880458723795123 / 2 ^ 50)"
    using b1 b2 b3 by (simp add: p_value_two_tailed_f64_def)
qed

section \<open>Properties of the distribution plot\<close>

text \<open>
  C1, as stated: with saving enabled, an I/O failure while creating the images directory
  is caught, the routine does not raise and still displays the figure. The display fails
  at the input below: the directory is missing, \<open>os.makedirs\<close> raises, and line 64
  returns before anything is drawn or shown.
\<close>

theorem composicao_makedirs_failure_not_shown:
  "composicao_histograma_boxplot
     \<lparr>dir_exists = False, makedirs_result = Some PermissionError,
      draw_result = None, savefig_result = None\<rparr>
     ''Titulo'' ''distribuicao.png'' True
   = ([Print (ErroCriarPasta PermissionError)], Inr ())
   \<and> Show \<notin> set (fst (composicao_histograma_boxplot
     \<lparr>dir_exists = False, makedirs_result = Some PermissionError,
      draw_result = None, savefig_result = None\<rparr>
     ''Titulo'' ''distribuicao.png'' True))"
  by (simp add: composicao_histograma_boxplot_def garantir_pasta_def)

text \<open>
  C1, amended: with saving enabled and a drawing that succeeds, the routine never
  raises; the figure is drawn and shown exactly when the images directory exists or
  \<open>os.makedirs\<close> succeeds; a failure of \<open>os.makedirs\<close> is logged and ends the call
  before the figure is drawn; a failure of \<open>plt.savefig\<close> is logged, nothing is saved,
  and the figure is still shown as the last effect.
\<close>

theorem composicao_save_failures_caught:
  assumes "draw_result env = None"
  shows "snd (composicao_histograma_boxplot env titulo nome_arquivo True) = Inr ()
    \<and> (Show \<in> set (fst (composicao_histograma_boxplot env titulo nome_arquivo True)))
        = (dir_exists env \<or> makedirs_result env = None)
    \<and> (Draw titulo \<in> set (fst (composicao_histograma_boxplot env titulo nome_arquivo True)))
        = (dir_exists env \<or> makedirs_result env = None)
    \<and> (\<not> dir_exists env \<and> makedirs_result env = Some e \<longrightarrow>
          fst (composicao_histograma_boxplot env titulo nome_arquivo True)
            = [Print (ErroCriarPasta e)])
    \<and> ((dir_exists env \<or> makedirs_result env = None) \<and> savefig_result env = Some e \<longrightarrow>
          Print (ErroSalvar nome_arquivo e)
            \<in> set (fst (composicao_histograma_boxplot env titulo nome_arquivo True))
          \<and> Savefig nome_arquivo
            \<notin> set (fst (composicao_histograma_boxplot env titulo nome_arquivo True))
          \<and> last (fst (composicao_histograma_boxplot env titulo nome_arquivo True)) = Show)"
  using assms
  by (auto simp: composicao_histograma_boxplot_def garantir_pasta_def salvar_grafico_def
           split: option.splits)

theorem composicao_save_failures_caught_witness:
  "draw_result \<lparr>dir_exists = True, makedirs_result = None,
                draw_result = None, savefig_result = Some OSError\<rparr> = None
   \<and> fst (composicao_histograma_boxplot
       \<lparr>dir_exists = True, makedirs_result = None,
        draw_result = None, savefig_result = Some OSError\<rparr>
       ''Titulo'' ''distribuicao.png'' True)
     = [Draw ''Titulo'', Print (ErroSalvar ''distribuicao.png'' OSError), Show]
   \<and> snd (composicao_histograma_boxplot
       \<lparr>dir_exists = True, makedirs_result = None,
        draw_result = None, savefig_result = Some OSError\<rparr>
       ''Titulo'' ''distribuicao.png'' True) = Inr ()
   \<and> fst (composicao_histograma_boxplot
       \<lparr>dir_exists = False, makedirs_result = Some OSError,
        draw_result = None, savefig_result = None\<rparr>
       ''Titulo'' ''distribuicao.png'' True)
     = [Print (ErroCriarPasta OSError)]
   \<and> snd (composicao_histograma_boxplot
       \<lparr>dir_exists = False, makedirs_result = Some OSError,
        draw_result = None, savefig_result = None\<rparr>
       ''Titulo'' ''distribuicao.png'' True) = Inr ()"
  using composicao_save_failures_caught
    [of "\<lparr>dir_exists = True, makedirs_result = None,
          draw_result = None, savefig_result = Some OSError\<rparr>"
        "''Titulo''" "''distribuicao.png''" OSError]
    composicao_save_failures_caught
    [of "\<lparr>dir_exists = False, makedirs_result = Some OSError,
          draw_result = None, savefig_result = None\<rparr>"
        "''Titulo''" "''distribuicao.png''" OSError]
  by (simp add: composicao_histograma_boxplot_def garantir_pasta_def salvar_grafico_def)

section \<open>Properties of teste\_f\_variancias\<close>

text \<open>
  C2, as stated: for two samples of length at least 2 with positive variances, the value
  returned by \<open>teste_f_variancias\<close> is the same when the two samples are swapped. It
  fails where the variances are equal and the lengths differ. The samples \<open>[0, 2]\<close>
  and \<open>[1, 1, -2, 0]\<close> both have variance 2, so both call orders take the else branch
  of lines 195 to 197 with F = 1 and read the distribution function at swapped degrees
  of freedom, (3, 1) and (1, 3). With the doubles that a double-precision distribution
  function returns there, the one call returns 0.782004437911541 and the other
  0.7820044379115414; lines 200 and 201 round nothing away at these values.
\<close>

theorem teste_f_swap_differs_on_tie:
  "fst (teste_f_variancias cdf_f64_exemplo 0 1 ''Grupo 1'' ''Grupo 2'' (5 / 100) estado_exemplo)
     = Some (1760917447590245 / 2 ^ 51)
   \<and> fst (teste_f_variancias cdf_f64_exemplo 1 0 ''Grupo 2'' ''Grupo 1'' (5 / 100) estado_exemplo)
     = Some (880458723795123 / 2 ^ 50)
   \<and> fst (teste_f_variancias cdf_f64_exemplo 0 1 ''Grupo 1'' ''Grupo 2'' (5 / 100) estado_exemplo)
     \<noteq> fst (teste_f_variancias cdf_f64_exemplo 1 0 ''Grupo 2'' ''Grupo 1'' (5 / 100)
            estado_exemplo)
   \<and> p_value_two_tailed_f64 (cdf_f64_exemplo 1 3 1) = Some (1760917447590245 / 2 ^ 51)
   \<and> p_value_two_tailed_f64 (cdf_f64_exemplo 1 1 3) = Some (880458723795123 / 2 ^ 50)"
proof -
  have p2: "(0::real) < 2" by simp
  note ab = teste_f_calculo_finite[OF exemplo_vars(1) exemplo_vars(2) p2 p2, of cdf_f64_exemplo]
  note ba = teste_f_calculo_finite[OF exemplo_vars(2) exemplo_vars(1) p2 p2, of cdf_f64_exemplo]
  have r1: "fst (teste_f_variancias cdf_f64_exemplo 0 1 ''Grupo 1'' ''Grupo 2'' (5 / 100)
                  estado_exemplo) = Some (1760917447590245 / 2 ^ 51)"
    by (simp add: teste_f_variancias_def Let_def exemplo_heap ab cdf_f64_exemplo_def)
  have r2: "fst (teste_f_variancias cdf_f64_exemplo 1 0 ''Grupo 2'' ''Grupo 1'' (5 / 100)
                  estado_exemplo) = Some (880458723795123 / 2 ^ 50)"
    by (simp add: teste_f_variancias_def Let_def exemplo_heap ba cdf_f64_exemplo_def)
  show ?thesis
    unfolding r1 r2 cdf_f64_exemplo_values(1,2) exemplo_p_value_f64 by simp
qed

text \<open>
  C2, amended: for two samples of length at least 2 with positive variances, when the
  variances differ or the lengths are equal, both call orders compute the same F and the
  same degrees of freedom and return the same value, whatever the distribution function
  returns. When the variances are equal and the lengths differ, the degrees of freedom
  are swapped, and the two values are equal as real numbers, by the symmetry of the F
  distribution (the values of its distribution function at 1 for swapped degrees of
  freedom add up to 1): in floats they agree within rounding only.
\<close>

theorem teste_f_swap_symmetry:
  assumes "2 \<le> length (heap s amostra1)" and "2 \<le> length (heap s amostra2)"
    and "np_var (heap s amostra1) 1 = Some va" and "np_var (heap s amostra2) 1 = Some vb"
    and "0 < va" and "0 < vb"
  shows "(va \<noteq> vb \<or> length (heap s amostra1) = length (heap s amostra2) \<longrightarrow>
            fst (teste_f_variancias cdf amostra1 amostra2 nome1 nome2 alpha s)
              = fst (teste_f_variancias cdf amostra2 amostra1 nome2 nome1 alpha s)
          \<and> F (teste_f_calculo cdf (heap s amostra1) (heap s amostra2))
              = F (teste_f_calculo cdf (heap s amostra2) (heap s amostra1))
          \<and> df1 (teste_f_calculo cdf (heap s amostra1) (heap s amostra2))
              = df1 (teste_f_calculo cdf (heap s amostra2) (heap s amostra1))
          \<and> df2 (teste_f_calculo cdf (heap s amostra1) (heap s amostra2))
              = df2 (teste_f_calculo cdf (heap s amostra2) (heap s amostra1)))
    \<and> ((\<forall>d1 d2. 1 \<le> d1 \<and> 1 \<le> d2 \<longrightarrow> cdf 1 d1 d2 + cdf 1 d2 d1 = 1) \<longrightarrow>
            fst (teste_f_variancias cdf amostra1 amostra2 nome1 nome2 alpha s)
              = fst (teste_f_variancias cdf amostra2 amostra1 nome2 nome1 alpha s))
    \<and> fst (teste_f_variancias cdf amostra1 amostra2 nome1 nome2 alpha s) \<noteq> None"
proof -
  note ab = teste_f_calculo_finite[OF assms(3,4,5,6), of cdf]
  note ba = teste_f_calculo_finite[OF assms(4,3,6,5), of cdf]
  have some: "fst (teste_f_variancias cdf amostra1 amostra2 nome1 nome2 alpha s) \<noteq> None"
    by (simp add: teste_f_variancias_def Let_def ab)
  have untied: "fst (teste_f_variancias cdf amostra1 amostra2 nome1 nome2 alpha s)
              = fst (teste_f_variancias cdf amostra2 amostra1 nome2 nome1 alpha s)
          \<and> F (teste_f_calculo cdf (heap s amostra1) (heap s amostra2))
              = F (teste_f_calculo cdf (heap s amostra2) (heap s amostra1))
          \<and> df1 (teste_f_calculo cdf (heap s amostra1) (heap s amostra2))
              = df1 (teste_f_calculo cdf (heap s amostra2) (heap s amostra1))
          \<and> df2 (teste_f_calculo cdf (heap s amostra1) (heap s amostra2))
              = df2 (teste_f_calculo cdf (heap s amostra2) (heap s amostra1))"
    if "va \<noteq> vb \<or> length (heap s amostra1) = length (heap s amostra2)"
  proof (cases "va = vb")
    case False
    then show ?thesis by (simp add: teste_f_variancias_def Let_def ab ba)
  next
    case True
    then have "length (heap s amostra1) = length (heap s amostra2)" using that by simp
    then show ?thesis using True by (simp add: teste_f_variancias_def Let_def ab ba)
  qed
  have tied: "fst (teste_f_variancias cdf amostra1 amostra2 nome1 nome2 alpha s)
       = fst (teste_f_variancias cdf amostra2 amostra1 nome2 nome1 alpha s)"
    if r: "\<forall>d1 d2. 1 \<le> d1 \<and> 1 \<le> d2 \<longrightarrow> cdf 1 d1 d2 + cdf 1 d2 d1 = 1"
  proof (cases "va = vb")
    case False
    then show ?thesis using untied by simp
  next
    case True
    have d: "1 \<le> int (length (heap s amostra1)) - 1" "1 \<le> int (length (heap s amostra2)) - 1"
      using assms(1,2) by simp_all
    have c: "cdf 1 (int (length (heap s amostra2)) - 1) (int (length (heap s amostra1)) - 1)
           + cdf 1 (int (length (heap s amostra1)) - 1) (int (length (heap s amostra2)) - 1) = 1"
      using r d by blast
    have m: "min (1 - x) (1 - (1 - x)) = min (1 - y) (1 - (1 - y))" if "x + y = 1" for x y :: real
      using that by (simp add: min_def)
    show ?thesis
      using True assms(5) m[OF c]
      by (simp add: teste_f_variancias_def Let_def ab ba)
  qed
  show ?thesis using some untied tied by blast
qed

theorem teste_f_swap_symmetry_witness:
  "fst (teste_f_variancias cdf_f64_exemplo 2 0 ''Grupo 1'' ''Grupo 2'' (5 / 100) estado_exemplo)
     = Some (10 / 57)
   \<and> fst (teste_f_variancias cdf_f64_exemplo 0 2 ''Grupo 2'' ''Grupo 1'' (5 / 100) estado_exemplo)
     = Some (10 / 57)
   \<and> fst (teste_f_variancias cdf_exemplo 0 1 ''Grupo 1'' ''Grupo 2'' (5 / 100) estado_exemplo)
     = Some (1 / 2)
   \<and> fst (teste_f_variancias cdf_exemplo 1 0 ''Grupo 2'' ''Grupo 1'' (5 / 100) estado_exemplo)
     = Some (1 / 2)
   \<and> df1 (teste_f_calculo cdf_exemplo (heap estado_exemplo 0) (heap estado_exemplo 1)) = 3
   \<and> df1 (teste_f_calculo cdf_exemplo (heap estado_exemplo 1) (heap estado_exemplo 0)) = 1"
proof -
  have p1: "(0::real) < 26 / 5" and p2: "(0::real) < 2" by simp_all
  have r: "\<forall>d1 d2. 1 \<le> d1 \<and> 1 \<le> d2 \<longrightarrow> cdf_exemplo 1 d1 d2 + cdf_exemplo 1 d2 d1 = 1"
    using cdf_exemplo_reciprocal by blast
  have ne: "(26 / 5 :: real) \<noteq> 2" by simp
  note a = teste_f_swap_symmetry
    [where cdf = cdf_f64_exemplo and alpha = "5 / 100",
     OF exemplo_lengths(3) exemplo_lengths(1) exemplo_heap_vars(3) exemplo_heap_vars(1) p1 p2]
  note b = teste_f_swap_symmetry
    [where cdf = cdf_exemplo and alpha = "5 / 100",
     OF exemplo_lengths(1) exemplo_lengths(2) exemplo_heap_vars(1) exemplo_heap_vars(2) p2 p2]
  note l = teste_f_calculo_finite[OF exemplo_vars(3) exemplo_vars(1) p1 p2, of cdf_f64_exemplo]
  have v1: "fst (teste_f_variancias cdf_f64_exemplo 2 0 ''Grupo 1'' ''Grupo 2'' (5 / 100)
                  estado_exemplo) = Some (10 / 57)"
    by (simp add: teste_f_variancias_def Let_def exemplo_heap l cdf_f64_exemplo_def
        cdf_exemplo_def)
  have v2: "fst (teste_f_variancias cdf_exemplo 0 1 ''Grupo 1'' ''Grupo 2'' (5 / 100)
                  estado_exemplo) = Some (1 / 2)"
    by (simp add: teste_f_variancias_def Let_def exemplo_heap exemplo_calculo_0_1)
  show ?thesis
    using a b r ne v1 v2 by (simp add: exemplo_heap exemplo_calculo_0_1 exemplo_calculo_1_0)
qed

text \<open>
  C3: for two samples of length at least 2 with positive variances, the F computed (and
  printed) by \<open>teste_f_variancias\<close> is the larger variance divided by the smaller one,
  it is at least 1, and the first degree of freedom is n - 1 of the sample with the
  larger variance, the second that of the other sample.
\<close>

theorem teste_f_statistic_ordered:
  assumes "2 \<le> length (heap s amostra1)" and "2 \<le> length (heap s amostra2)"
    and "np_var (heap s amostra1) 1 = Some va" and "np_var (heap s amostra2) 1 = Some vb"
    and "0 < va" and "0 < vb"
  shows "F (teste_f_calculo cdf (heap s amostra1) (heap s amostra2))
           = Some (max va vb / min va vb)
    \<and> 1 \<le> max va vb / min va vb
    \<and> (vb < va \<longrightarrow>
          df1 (teste_f_calculo cdf (heap s amostra1) (heap s amostra2))
            = int (length (heap s amostra1)) - 1
        \<and> df2 (teste_f_calculo cdf (heap s amostra1) (heap s amostra2))
            = int (length (heap s amostra2)) - 1)
    \<and> (va < vb \<longrightarrow>
          df1 (teste_f_calculo cdf (heap s amostra1) (heap s amostra2))
            = int (length (heap s amostra2)) - 1
        \<and> df2 (teste_f_calculo cdf (heap s amostra1) (heap s amostra2))
            = int (length (heap s amostra1)) - 1)
    \<and> LinhaF (Some (max va vb / min va vb))
          \<in> set (stdout (snd (teste_f_variancias cdf amostra1 amostra2 nome1 nome2 alpha s)))"
proof -
  have ge: "1 \<le> max va vb / min va vb"
    using assms(5,6) by (simp add: max_def min_def)
  show ?thesis
    using ge assms(5,6)
    by (simp add: teste_f_calculo_finite[OF assms(3,4,5,6)] teste_f_variancias_def
        teste_f_resultados_def teste_f_cabecalho_def Let_def max_def min_def)
qed

theorem teste_f_statistic_ordered_witness:
  "F (teste_f_calculo cdf_exemplo (heap estado_exemplo 2) (heap estado_exemplo 0)) = Some (13 / 5)
   \<and> df1 (teste_f_calculo cdf_exemplo (heap estado_exemplo 2) (heap estado_exemplo 0)) = 4
   \<and> df2 (teste_f_calculo cdf_exemplo (heap estado_exemplo 2) (heap estado_exemplo 0)) = 1
   \<and> F (teste_f_calculo cdf_exemplo (heap estado_exemplo 0) (heap estado_exemplo 2)) = Some (13 / 5)
   \<and> df1 (teste_f_calculo cdf_exemplo (heap estado_exemplo 0) (heap estado_exemplo 2)) = 4
   \<and> df2 (teste_f_calculo cdf_exemplo (heap estado_exemplo 0) (heap estado_exemplo 2)) = 1"
proof -
  have p1: "(0::real) < 26 / 5" and p2: "(0::real) < 2" by simp_all
  note a = teste_f_statistic_ordered
    [OF exemplo_lengths(3) exemplo_lengths(1) exemplo_heap_vars(3) exemplo_heap_vars(1) p1 p2,
     of cdf_exemplo "''Grupo 1''" "''Grupo 2''" "5 / 100"]
  note b = teste_f_statistic_ordered
    [OF exemplo_lengths(1) exemplo_lengths(3) exemplo_heap_vars(1) exemplo_heap_vars(3) p2 p1,
     of cdf_exemplo "''Grupo 1''" "''Grupo 2''" "5 / 100"]
  show ?thesis using a b by (simp add: exemplo_heap)
qed

text \<open>
  C4: for two samples of length at least 2 with positive variances, the one-tailed value
  is \<open>1 - cdf F df1 df2\<close> and the value returned by \<open>teste_f_variancias\<close> is exactly
  \<open>2 * min p_one (1 - p_one)\<close>.
\<close>

theorem teste_f_two_tailed_formula:
  assumes "2 \<le> length (heap s amostra1)" and "2 \<le> length (heap s amostra2)"
    and "np_var (heap s amostra1) 1 = Some va" and "np_var (heap s amostra2) 1 = Some vb"
    and "0 < va" and "0 < vb"
  shows "p_value_one_tailed (teste_f_calculo cdf (heap s amostra1) (heap s amostra2))
           = Some (1 - cdf (max va vb / min va vb)
                          (df1 (teste_f_calculo cdf (heap s amostra1) (heap s amostra2)))
                          (df2 (teste_f_calculo cdf (heap s amostra1) (heap s amostra2))))
    \<and> fst (teste_f_variancias cdf amostra1 amostra2 nome1 nome2 alpha s)
           = map_option (\<lambda>p_one. 2 * min p_one (1 - p_one))
               (p_value_one_tailed (teste_f_calculo cdf (heap s amostra1) (heap s amostra2)))"
  using assms(5,6)
  by (simp add: teste_f_calculo_finite[OF assms(3,4,5,6)] teste_f_variancias_def
      Let_def max_def min_def)

theorem teste_f_two_tailed_formula_witness:
  "p_value_one_tailed (teste_f_calculo cdf_exemplo (heap estado_exemplo 2) (heap estado_exemplo 0))
     = Some (5 / 57)
   \<and> fst (teste_f_variancias cdf_exemplo 2 0 ''Grupo 1'' ''Grupo 2'' (5 / 100) estado_exemplo)
     = Some (10 / 57)"
proof -
  have p1: "(0::real) < 26 / 5" and p2: "(0::real) < 2" by simp_all
  note a = teste_f_two_tailed_formula
    [OF exemplo_lengths(3) exemplo_lengths(1) exemplo_heap_vars(3) exemplo_heap_vars(1) p1 p2,
     of cdf_exemplo "''Grupo 1''" "''Grupo 2''" "5 / 100"]
  show ?thesis using a by (simp add: exemplo_heap exemplo_calculo_2_0)
qed

text \<open>
  C10: for two samples of length at least 2 with positive variances, the value returned
  by \<open>teste_f_variancias\<close> lies between 0 and 1, the distribution function taking its
  values between 0 and 1.
\<close>

theorem teste_f_p_value_in_unit_interval:
  assumes "2 \<le> length (heap s amostra1)" and "2 \<le> length (heap s amostra2)"
    and "np_var (heap s amostra1) 1 = Some va" and "np_var (heap s amostra2) 1 = Some vb"
    and "0 < va" and "0 < vb"
    and "\<forall>x d1 d2. 0 \<le> cdf x d1 d2 \<and> cdf x d1 d2 \<le> 1"
  shows "\<exists>p. fst (teste_f_variancias cdf amostra1 amostra2 nome1 nome2 alpha s) = Some p
    \<and> 0 \<le> p \<and> p \<le> 1"
proof -
  have bound: "0 \<le> 2 * min (1 - c) (1 - (1 - c)) \<and> 2 * min (1 - c) (1 - (1 - c)) \<le> 1"
    if "0 \<le> c" "c \<le> 1" for c :: real
    using that by (simp add: min_def)
  show ?thesis
    using assms(7) bound
    by (simp add: teste_f_calculo_finite[OF assms(3,4,5,6)] teste_f_variancias_def Let_def)
qed

theorem teste_f_p_value_in_unit_interval_witness:
  "fst (teste_f_variancias cdf_exemplo 2 0 ''Grupo 1'' ''Grupo 2'' (5 / 100) estado_exemplo)
     = Some (10 / 57)
   \<and> (0::real) \<le> 10 / 57 \<and> (10::real) / 57 \<le> 1"
proof -
  have p1: "(0::real) < 26 / 5" and p2: "(0::real) < 2" by simp_all
  have r: "\<forall>x d1 d2. 0 \<le> cdf_exemplo x d1 d2 \<and> cdf_exemplo x d1 d2 \<le> 1"
    using cdf_exemplo_range by blast
  note a = teste_f_p_value_in_unit_interval
    [where cdf = cdf_exemplo and alpha = "5 / 100", OF exemplo_lengths(3) exemplo_lengths(1) exemplo_heap_vars(3) exemplo_heap_vars(1) p1 p2 r]
  have "fst (teste_f_variancias cdf_exemplo 2 0 ''Grupo 1'' ''Grupo 2'' (5 / 100) estado_exemplo)
     = Some (10 / 57)"
    by (simp add: teste_f_variancias_def Let_def exemplo_heap exemplo_calculo_2_0)
  then show ?thesis using a by simp
qed

section \<open>Properties of calcular\_estatisticas\<close>

text \<open>
  C5: for every sample of length at least 2, the field Curtose is the fourth standardized
  moment of the sample, without the shift by 3: the routine calls \<open>kurtosis\<close> with
  \<open>fisher=False\<close>, and the Fisher (excess) value is the field minus 3. On a constant
  sample the second moment is 0 and the field is NaN.
\<close>

theorem curtose_standardized_moment:
  assumes "2 \<le> length (heap s amostra)"
  shows "Curtose (fst (calcular_estatisticas amostra s))
           = (if moment (heap s amostra) 2 = 0 then None
              else Some (standardized_moment (heap s amostra) 4))
    \<and> kurtosis (heap s amostra) True
           = map_option (\<lambda>k. k - 3) (Curtose (fst (calcular_estatisticas amostra s)))"
proof -
  have ne: "heap s amostra \<noteq> []" using assms by auto
  show ?thesis
    using ne
    by (simp add: calcular_estatisticas_def calcular_estatisticas_body_def kurtosis_def
        Let_def standardized_moment_4)
qed

theorem curtose_standardized_moment_witness:
  "Curtose (fst (calcular_estatisticas 0 estado_exemplo)) = Some 1
   \<and> standardized_moment (heap estado_exemplo 0) 4 = 1
   \<and> kurtosis (heap estado_exemplo 0) True = Some (- 2)"
  using curtose_standardized_moment[OF exemplo_lengths(1)]
  by (simp add: exemplo_heap exemplo_moments standardized_moment_4)

text \<open>
  C6: for every non-empty sample, the field Moda is a value of the sample that no value
  occurs more often than; of the most frequent values it is the smallest, so when no
  value repeats it is the smallest element of the sample; and when the array of modes is
  empty, line 165 gives NaN instead of reading its first entry.
\<close>

theorem moda_most_frequent_smallest:
  assumes "heap s amostra \<noteq> []"
  shows "(\<exists>m. Moda (fst (calcular_estatisticas amostra s)) = Some m
          \<and> m \<in> set (heap s amostra)
          \<and> (\<forall>x. count_list (heap s amostra) x \<le> count_list (heap s amostra) m)
          \<and> (\<forall>x \<in> set (heap s amostra).
                count_list (heap s amostra) x = count_list (heap s amostra) m \<longrightarrow> m \<le> x)
          \<and> (distinct (heap s amostra) \<longrightarrow> m = Min (set (heap s amostra))))
    \<and> (mode moda_result = [] \<longrightarrow> moda_de moda_result = None)"
proof -
  obtain m where m: "mode (stats_mode (heap s amostra)) = [m]" "m \<in> set (heap s amostra)"
    "\<forall>x. count_list (heap s amostra) x \<le> count_list (heap s amostra) m"
    "\<forall>x \<in> set (heap s amostra).
       count_list (heap s amostra) x = count_list (heap s amostra) m \<longrightarrow> m \<le> x"
    using stats_mode_most_frequent[OF assms] by blast
  have moda: "Moda (fst (calcular_estatisticas amostra s)) = Some m"
    by (simp add: calcular_estatisticas_def calcular_estatisticas_body_def moda_de_def m(1))
  have smallest: "m = Min (set (heap s amostra))" if d: "distinct (heap s amostra)"
  proof -
    have "m \<le> x" if "x \<in> set (heap s amostra)" for x
      using m(4) that m(2) distinct_count_list_1[OF d] by simp
    then have "Min (set (heap s amostra)) = m"
      using m(2) by (intro Min_eqI) simp_all
    then show ?thesis by simp
  qed
  have guard: "mode moda_result = [] \<longrightarrow> moda_de moda_result = None"
    by (simp add: moda_de_def)
  show ?thesis using moda m(2,3,4) smallest guard by blast
qed

theorem moda_most_frequent_smallest_witness:
  "Moda (fst (calcular_estatisticas 2 estado_exemplo)) = Some 3
   \<and> Moda (fst (calcular_estatisticas 1 estado_exemplo)) = Some 1
   \<and> Moda (fst (calcular_estatisticas 0 estado_exemplo)) = Some 0
   \<and> distinct (heap estado_exemplo 0) \<and> Min (set (heap estado_exemplo 0)) = 0
   \<and> moda_de \<lparr>mode = [], count = []\<rparr> = None"
proof -
  have n0: "heap estado_exemplo 0 \<noteq> []" and n1: "heap estado_exemplo 1 \<noteq> []"
    and n2: "heap estado_exemplo 2 \<noteq> []"
    by (simp_all add: exemplo_heap)
  have v: "Moda (fst (calcular_estatisticas 2 estado_exemplo)) = Some 3"
    "Moda (fst (calcular_estatisticas 1 estado_exemplo)) = Some 1"
    "Moda (fst (calcular_estatisticas 0 estado_exemplo)) = Some 0"
    by (simp_all add: calcular_estatisticas_def calcular_estatisticas_body_def exemplo_heap
        moda_de_def stats_mode_def np_unique_def np_argmax_def Let_def)
  show ?thesis
    using moda_most_frequent_smallest[OF n2, of "\<lparr>mode = [], count = []\<rparr>"]
      moda_most_frequent_smallest[OF n1, of "\<lparr>mode = [], count = []\<rparr>"]
      moda_most_frequent_smallest[OF n0, of "\<lparr>mode = [], count = []\<rparr>"] v
    by (simp add: exemplo_heap)
qed




text \<open>
  C8: for every sample with at least 2 distinct values, the field Desvio Padrao is the
  square root of the field Variancia, the variance is the square of the standard
  deviation, and both use the divisor n - 1.
\<close>

theorem desvio_padrao_sqrt_variancia:
  assumes "2 \<le> card (set (heap s amostra))"
  shows "\<exists>v sd. Variancia (fst (calcular_estatisticas amostra s)) = Some v
    \<and> Desvio_Padrao (fst (calcular_estatisticas amostra s)) = Some sd
    \<and> sd = sqrt v \<and> v = sd ^ 2
    \<and> v = (\<Sum>x\<leftarrow>heap s amostra.
             (x - sum_list (heap s amostra) / real (length (heap s amostra))) ^ 2)
           / real (length (heap s amostra) - 1)"
proof -
  have len: "2 \<le> length (heap s amostra)"
    using assms card_length[of "heap s amostra"] by linarith
  define v where "v = (\<Sum>x\<leftarrow>heap s amostra.
             (x - sum_list (heap s amostra) / real (length (heap s amostra))) ^ 2)
           / real (length (heap s amostra) - 1)"
  have var: "np_var (heap s amostra) 1 = Some v"
    using np_var_ddof1[OF len] by (simp add: v_def)
  have nonneg: "0 \<le> v" using np_var_nonneg[OF var] by simp
  have "Variancia (fst (calcular_estatisticas amostra s)) = Some v"
    by (simp add: calcular_estatisticas_def calcular_estatisticas_body_def var
        del: One_nat_def)
  moreover have "Desvio_Padrao (fst (calcular_estatisticas amostra s)) = Some (sqrt v)"
    by (simp add: calcular_estatisticas_def calcular_estatisticas_body_def np_std_def var
        del: One_nat_def)
  moreover have "v = (sqrt v) ^ 2" using nonneg by simp
  ultimately show ?thesis using v_def by blast
qed

theorem desvio_padrao_sqrt_variancia_witness:
  "2 \<le> card (set (heap estado_exemplo 0))
   \<and> Variancia (fst (calcular_estatisticas 0 estado_exemplo)) = Some 2
   \<and> Desvio_Padrao (fst (calcular_estatisticas 0 estado_exemplo)) = Some (sqrt 2)"
proof -
  have c: "2 \<le> card (set (heap estado_exemplo 0))" by (simp add: exemplo_heap)
  have v: "Variancia (fst (calcular_estatisticas 0 estado_exemplo)) = Some 2"
    by (simp add: calcular_estatisticas_def calcular_estatisticas_body_def exemplo_heap_vars
        del: One_nat_def)
  show ?thesis using desvio_padrao_sqrt_variancia[OF c] c v by auto
qed

section \<open>The frame of the statistics routines\<close>

text \<open>
  C9: the statistics routines never change their input samples: \<open>calcular_estatisticas\<close>
  leaves the whole state as it was, and \<open>teste_f_variancias\<close> leaves every sample of
  the store as it was and only appends its report to the console.
\<close>

theorem statistics_leave_samples_unchanged:
  "snd (calcular_estatisticas amostra s) = s
   \<and> heap (snd (teste_f_variancias cdf amostra1 amostra2 nome1 nome2 alpha s)) = heap s
   \<and> stdout (snd (teste_f_variancias cdf amostra1 amostra2 nome1 nome2 alpha s))
       = stdout s @ teste_f_cabecalho nome1 nome2
           @ teste_f_resultados nome1 nome2 alpha
               (teste_f_calculo cdf (heap s amostra1) (heap s amostra2))"
  by (simp add: calcular_estatisticas_def teste_f_variancias_def Let_def)

end
